theory Spec2Isabelle
  imports Complex_Main "HOL-Library.AList" "HOL-Library.Sublist" "HOL-Library.Multiset"
begin

section \<open>KubeLite: the desired-state store\<close>

text \<open>
  The development embeds the TypeScript sources of the KubeLite agent. JavaScript
  \<^verbatim>\<open>Map\<close> objects keep their keys in insertion order, so a \<^verbatim>\<open>Map\<close> is an
  association list: \<^verbatim>\<open>get\<close> is \<^const>\<open>map_of\<close>, \<^verbatim>\<open>set\<close> is
  \<^const>\<open>AList.update\<close> (a present key keeps its place, a new key goes to the end) and
  \<^verbatim>\<open>delete\<close> is \<^const>\<open>AList.delete\<close>. Optional fields are \<open>option\<close>s, with
  \<open>None\<close> for \<^verbatim>\<open>undefined\<close>. Replica counts and ports are integers.
\<close>

subsection \<open>Printing integers (template literals)\<close>

definition digit_char :: "nat \<Rightarrow> char" where
  "digit_char d = char_of (48 + d)"

fun show_nat :: "nat \<Rightarrow> string" where
  "show_nat n = (if n < 10 then [digit_char n] else show_nat (n div 10) @ [digit_char (n mod 10)])"

declare show_nat.simps [simp del]

definition show_int :: "int \<Rightarrow> string" where
  "show_int i = (if i < 0 then CHR ''-'' # show_nat (nat (- i)) else show_nat (nat i))"

text \<open>\<^verbatim>\<open>Array.prototype.join\<close> on strings.\<close>

fun join :: "string \<Rightarrow> string list \<Rightarrow> string" where
  "join sep [] = []"
| "join sep [x] = x"
| "join sep (x # y # ys) = x @ sep @ join sep (y # ys)"

subsection \<open>Data model (types.ts)\<close>

record AutoscalingConfig =
  as_enabled :: bool
  as_minReplicas :: int
  as_maxReplicas :: int
  as_targetCpuUtilization :: int

record KubeLiteApp =
  app_name :: string
  app_image :: string
  app_replicas :: int
  app_ports :: "int list option"
  app_autoscaling :: "AutoscalingConfig option"

text \<open>
  \<^verbatim>\<open>status\<close> holds the string that the runtime reports (the interface names
  "running", "stopped", "failed" and "pending"). \<^verbatim>\<open>createdAt\<close> is a \<^verbatim>\<open>Date\<close>; the
  model keeps its \<^verbatim>\<open>getTime()\<close>, the milliseconds since the epoch, of a valid date.
  A label object is an association list in key order.
\<close>

record NosanaContainer =
  cont_id :: string
  cont_name :: string
  cont_image :: string
  cont_status :: string
  cont_createdAt :: int
  cont_labels :: "(string \<times> string) list option"

text \<open>JavaScript numbers that are not all reals: results of \<^verbatim>\<open>Number(...)\<close> coercions.\<close>

datatype jsnum = NaN | NegInf | Num real | PosInf

subsection \<open>Commands (the typed interface \<^verbatim>\<open>ParsedCommand\<close>)\<close>

datatype Intent = Deploy | Scale | Delete | Status | Stop | Help

fun intent_str :: "Intent \<Rightarrow> string" where
  "intent_str Deploy = ''deploy''"
| "intent_str Scale = ''scale''"
| "intent_str Delete = ''delete''"
| "intent_str Status = ''status''"
| "intent_str Stop = ''stop''"
| "intent_str Help = ''help''"

record ParsedCommand =
  cmd_intent :: Intent
  cmd_appName :: "string option"
  cmd_image :: "string option"
  cmd_replicas :: "int option"
  cmd_ports :: "int list option"

text \<open>
  The fields \<^verbatim>\<open>confidence\<close> and \<^verbatim>\<open>reasoning\<close> of a command are never read by the
  store and are left out of \<^typ>\<open>ParsedCommand\<close>. A test such as
  \<^verbatim>\<open>!command.appName\<close> holds for \<^verbatim>\<open>undefined\<close> and for the empty string, the two
  falsy values of an optional string; the handlers below match on the option and test
  the string for emptiness.
\<close>

text \<open>\<^verbatim>\<open>command.replicas || 1\<close>: an absent count and the count 0 are both falsy.\<close>

fun replicas_or_1 :: "int option \<Rightarrow> int" where
  "replicas_or_1 None = 1"
| "replicas_or_1 (Some n) = (if n = 0 then 1 else n)"

text \<open>\<^verbatim>\<open>command.ports || []\<close>: every array is truthy.\<close>

fun ports_or_empty :: "int list option \<Rightarrow> int list" where
  "ports_or_empty None = []"
| "ports_or_empty (Some ps) = ps"

subsection \<open>StateManager (state-manager.ts)\<close>

record StateManager =
  applications :: "(string \<times> KubeLiteApp) list"

record CommandResult =
  success :: bool
  message :: string
  app :: "KubeLiteApp option"

definition failure :: "string \<Rightarrow> CommandResult" where
  "failure msg = \<lparr>success = False, message = msg, app = None\<rparr>"

definition handleDeploy :: "StateManager \<Rightarrow> ParsedCommand \<Rightarrow> CommandResult \<times> StateManager" where
  "handleDeploy s command =
     (case (cmd_appName command, cmd_image command) of
        (Some appName, Some img) \<Rightarrow>
          if appName = [] \<or> img = [] then
            (failure ''Deploy command requires both app name and image'', s)
          else
            let a = \<lparr>app_name = appName,
                     app_image = img,
                     app_replicas = replicas_or_1 (cmd_replicas command),
                     app_ports = Some (ports_or_empty (cmd_ports command)),
                     app_autoscaling = None\<rparr>
            in (\<lparr>success = True,
                 message = ''Created deployment for '' @ app_name a @ '' with ''
                           @ show_int (app_replicas a) @ '' replica(s) using image '' @ app_image a,
                 app = Some a\<rparr>,
                s\<lparr>applications := AList.update appName a (applications s)\<rparr>)
      | _ \<Rightarrow> (failure ''Deploy command requires both app name and image'', s))"

definition handleScale :: "StateManager \<Rightarrow> ParsedCommand \<Rightarrow> CommandResult \<times> StateManager" where
  "handleScale s command =
     (case (cmd_appName command, cmd_replicas command) of
        (Some appName, Some newReplicas) \<Rightarrow>
          if appName = [] then
            (failure ''Scale command requires both app name and replica count'', s)
          else
            (case map_of (applications s) appName of
               None \<Rightarrow>
                 (failure (''Application '' @ appName @ '' not found. Deploy it first.''), s)
             | Some existingApp \<Rightarrow>
                 let oldReplicas = app_replicas existingApp;
                     existingApp' = existingApp\<lparr>app_replicas := newReplicas\<rparr>;
                     action = (if newReplicas > oldReplicas then ''scaled up''
                               else if newReplicas < oldReplicas then ''scaled down''
                               else ''maintained'')
                 in (\<lparr>success = True,
                      message = app_name existingApp' @ '' '' @ action @ '' from ''
                                @ show_int oldReplicas @ '' to '' @ show_int newReplicas
                                @ '' replica(s)'',
                      app = Some existingApp'\<rparr>,
                     s\<lparr>applications := AList.update appName existingApp' (applications s)\<rparr>))
      | _ \<Rightarrow> (failure ''Scale command requires both app name and replica count'', s))"

definition handleDelete :: "StateManager \<Rightarrow> ParsedCommand \<Rightarrow> CommandResult \<times> StateManager" where
  "handleDelete s command =
     (case cmd_appName command of
        Some appName \<Rightarrow>
          if appName = [] then (failure ''Delete command requires an app name'', s)
          else
            (case map_of (applications s) appName of
               None \<Rightarrow> (failure (''Application '' @ appName @ '' not found''), s)
             | Some existingApp \<Rightarrow>
                 (\<lparr>success = True,
                   message = ''Deleted application '' @ appName,
                   app = None\<rparr>,
                  s\<lparr>applications := AList.delete appName (applications s)\<rparr>))
      | None \<Rightarrow> (failure ''Delete command requires an app name'', s))"

definition handleStatus :: "StateManager \<Rightarrow> CommandResult \<times> StateManager" where
  "handleStatus s =
     (if length (applications s) = 0 then
        (\<lparr>success = True, message = ''No applications currently defined'', app = None\<rparr>, s)
      else
        let appList = join [CHR 0x0A]
              (map (\<lambda>a. ''  - '' @ app_name a @ '': '' @ show_int (app_replicas a)
                         @ '' replica(s) of '' @ app_image a)
                   (map snd (applications s)))
        in (\<lparr>success = True,
             message = ''Current applications:'' @ [CHR 0x0A] @ appList,
             app = None\<rparr>, s))"

fun applyCommand :: "StateManager \<Rightarrow> ParsedCommand \<Rightarrow> CommandResult \<times> StateManager" where
  "applyCommand s command =
     (case cmd_intent command of
        Deploy \<Rightarrow> handleDeploy s command
      | Scale \<Rightarrow> handleScale s command
      | Delete \<Rightarrow> handleDelete s command
      | Status \<Rightarrow> handleStatus s
      | _ \<Rightarrow> (failure (''Unknown command intent: '' @ intent_str (cmd_intent command)), s))"


definition getAllApplications :: "StateManager \<Rightarrow> KubeLiteApp list" where
  "getAllApplications s = map snd (applications s)"

definition hasApplication :: "StateManager \<Rightarrow> string \<Rightarrow> bool" where
  "hasApplication s name = (map_of (applications s) name \<noteq> None)"



section \<open>Manifests (manifest-parser.ts)\<close>

text \<open>
  \<^verbatim>\<open>yaml.load\<close> returns whatever document the text holds, so every part of a loaded
  manifest may be missing: the fields are options, and a document that is not an object
  reads like a manifest without a \<^verbatim>\<open>kind\<close>. The library js-yaml itself is not part
  of the repository; \<^verbatim>\<open>yaml.dump\<close> and \<^verbatim>\<open>yaml.load\<close> are parameters \<open>dump\<close> and
  \<open>load\<close> of the two entry points, over any type of texts. \<open>load\<close> returns the
  message of the exception it throws, or the document (\<open>None\<close> for an empty one).
\<close>

record PortSpec =
  containerPort :: int
  protocol :: "string option"

record ContainerSpec =
  cs_image :: "string option"
  cs_ports :: "PortSpec list option"

record ManifestSpec =
  ms_replicas :: "int option"
  ms_container :: "ContainerSpec option"
  ms_autoscaling :: "AutoscalingConfig option"

record Metadata =
  md_name :: "string option"

record KubeLiteManifest =
  apiVersion :: "string option"
  kind :: "string option"
  metadata :: "Metadata option"
  spec :: "ManifestSpec option"

text \<open>\<^verbatim>\<open>manifest.metadata?.name\<close> and \<^verbatim>\<open>manifest.spec?.container?.image\<close>.\<close>

definition manifest_name :: "KubeLiteManifest \<Rightarrow> string option" where
  "manifest_name m = (case metadata m of None \<Rightarrow> None | Some md \<Rightarrow> md_name md)"

definition manifest_image :: "KubeLiteManifest \<Rightarrow> string option" where
  "manifest_image m =
     (case spec m of None \<Rightarrow> None
      | Some sp \<Rightarrow> (case ms_container sp of None \<Rightarrow> None | Some c \<Rightarrow> cs_image c))"

definition manifestToApp :: "KubeLiteManifest option \<Rightarrow> string + KubeLiteApp" where
  "manifestToApp manifest =
     (case manifest of
        None \<Rightarrow> Inl (''Invalid manifest: must be of kind 'Application'' @ [CHR 0x27])
      | Some m \<Rightarrow>
          if kind m \<noteq> Some ''Application'' then
            Inl (''Invalid manifest: must be of kind 'Application'' @ [CHR 0x27])
          else
            (case manifest_name m of
               None \<Rightarrow> Inl ''Invalid manifest: metadata.name is required''
             | Some nm \<Rightarrow>
                 if nm = [] then Inl ''Invalid manifest: metadata.name is required''
                 else
                   (case (spec m, manifest_image m) of
                      (Some sp, Some img) \<Rightarrow>
                        if img = [] then Inl ''Invalid manifest: spec.container.image is required''
                        else
                          Inr \<lparr>app_name = nm,
                               app_image = img,
                               app_replicas = replicas_or_1 (ms_replicas sp),
                               app_ports =
                                 (case ms_container sp of
                                    None \<Rightarrow> None
                                  | Some c \<Rightarrow> map_option (map containerPort) (cs_ports c)),
                               app_autoscaling = ms_autoscaling sp\<rparr>
                    | _ \<Rightarrow> Inl ''Invalid manifest: spec.container.image is required'')))"

definition parseFromString ::
  "('t \<Rightarrow> string + KubeLiteManifest option) \<Rightarrow> 't \<Rightarrow> string + KubeLiteApp" where
  "parseFromString load yamlContent =
     (case load yamlContent of
        Inl e \<Rightarrow> Inl (''Failed to parse YAML manifest: '' @ e)
      | Inr manifest \<Rightarrow>
          (case manifestToApp manifest of
             Inl e \<Rightarrow> Inl (''Failed to parse YAML manifest: Error: '' @ e)
           | Inr a \<Rightarrow> Inr a))"

text \<open>The object that \<^verbatim>\<open>appToYaml\<close> builds and hands to \<^verbatim>\<open>yaml.dump\<close>.\<close>

definition appToManifest :: "KubeLiteApp \<Rightarrow> KubeLiteManifest" where
  "appToManifest a =
     \<lparr>apiVersion = Some ''kubelite.io/v1'',
      kind = Some ''Application'',
      metadata = Some \<lparr>md_name = Some (app_name a)\<rparr>,
      spec = Some
        \<lparr>ms_replicas = Some (app_replicas a),
         ms_container = Some
           \<lparr>cs_image = Some (app_image a),
            cs_ports =
              (case app_ports a of
                 None \<Rightarrow> None
               | Some ps \<Rightarrow>
                   if length ps > 0
                   then Some (map (\<lambda>port. \<lparr>containerPort = port, protocol = Some ''TCP''\<rparr>) ps)
                   else None)\<rparr>,
         ms_autoscaling = app_autoscaling a\<rparr>\<rparr>"

definition appToYaml :: "(KubeLiteManifest \<Rightarrow> 't) \<Rightarrow> KubeLiteApp \<Rightarrow> 't" where
  "appToYaml dump a = dump (appToManifest a)"

text \<open>
  A lossless serializer for closed examples: the text is the document itself, and loading
  gives the document back.
\<close>

definition lossless_dump :: "KubeLiteManifest \<Rightarrow> KubeLiteManifest" where
  "lossless_dump m = m"

definition lossless_load :: "KubeLiteManifest \<Rightarrow> string + KubeLiteManifest option" where
  "lossless_load t = Inr (Some t)"

definition web_app :: KubeLiteApp where
  "web_app = \<lparr>app_name = ''web'', app_image = ''nginx:latest'', app_replicas = 2,
              app_ports = Some [80], app_autoscaling = None\<rparr>"

section \<open>JavaScript values\<close>

text \<open>
  The translator and the classifier read fields of a value that \<^verbatim>\<open>JSON.parse\<close>
  returns, so a field may hold any JSON value or be missing. \<open>json option\<close> is such a
  field, \<open>None\<close> for \<^verbatim>\<open>undefined\<close>. The coercions below are the ones the sources
  apply: truthiness (\<^verbatim>\<open>||\<close>, \<^verbatim>\<open>!\<close>, \<^verbatim>\<open>&&\<close>), property access, the conversion
  to a number inside \<^verbatim>\<open>Math.min\<close> and \<^verbatim>\<open>Math.max\<close>, and the conversion to a string
  inside a template literal. Numbers are reals; rounding to double precision is not
  modelled, and characters are code units below 256.
\<close>

datatype json = JNull | JBool bool | JNum real | JStr string | JArr "json list"
  | JObj "(string \<times> json) list"

text \<open>
  An object lists each of its keys once, as \<^verbatim>\<open>JSON.parse\<close> builds it.
  \<^verbatim>\<open>a || b\<close> is \<open>js_or a b\<close>, and \<open>get_prop v k\<close> is \<^verbatim>\<open>v.k\<close> for a value
  \<open>v\<close> other than \<^verbatim>\<open>null\<close>: the fields read here are own properties of
  objects only.
\<close>

fun truthy :: "json option \<Rightarrow> bool" where
  "truthy None = False"
| "truthy (Some JNull) = False"
| "truthy (Some (JBool b)) = b"
| "truthy (Some (JNum r)) = (r \<noteq> 0)"
| "truthy (Some (JStr s)) = (s \<noteq> [])"
| "truthy (Some (JArr xs)) = True"
| "truthy (Some (JObj kvs)) = True"

definition js_or :: "json option \<Rightarrow> json \<Rightarrow> json" where
  "js_or v d = (case v of None \<Rightarrow> d | Some x \<Rightarrow> if truthy (Some x) then x else d)"

fun get_prop :: "json \<Rightarrow> string \<Rightarrow> json option" where
  "get_prop (JObj kvs) k = map_of kvs k"
| "get_prop v k = None"

text \<open>\<^verbatim>\<open>String.prototype.trim\<close>, over the white space below code unit 256.\<close>

definition is_space :: "char \<Rightarrow> bool" where
  "is_space c = ((of_char c :: nat) \<in> {9, 10, 11, 12, 13, 32, 160})"

definition trim :: "string \<Rightarrow> string" where
  "trim s = rev (dropWhile is_space (rev (dropWhile is_space s)))"

text \<open>
  The conversion of a string to a number: optional white space around a signed decimal
  literal (with optional fraction and exponent), \<^verbatim>\<open>Infinity\<close>, or an unsigned
  hexadecimal, octal or binary integer literal; the empty string is 0 and every other
  string is \<^verbatim>\<open>NaN\<close>.
\<close>

definition is_digit :: "char \<Rightarrow> bool" where
  "is_digit c = (48 \<le> (of_char c :: nat) \<and> (of_char c :: nat) \<le> 57)"

definition hex_val :: "char \<Rightarrow> nat option" where
  "hex_val c =
     (let n = (of_char c :: nat) in
      if 48 \<le> n \<and> n \<le> 57 then Some (n - 48)
      else if 97 \<le> n \<and> n \<le> 102 then Some (n - 87)
      else if 65 \<le> n \<and> n \<le> 70 then Some (n - 55)
      else None)"

fun digits_val :: "nat \<Rightarrow> nat \<Rightarrow> string \<Rightarrow> nat option" where
  "digits_val b acc [] = Some acc"
| "digits_val b acc (c # cs) =
     (case hex_val c of
        None \<Rightarrow> None
      | Some d \<Rightarrow> if d < b then digits_val b (acc * b + d) cs else None)"

definition radix_literal :: "nat \<Rightarrow> string \<Rightarrow> jsnum" where
  "radix_literal b ds = (if ds = [] then NaN
     else case digits_val b 0 ds of None \<Rightarrow> NaN | Some n \<Rightarrow> Num (of_nat n))"

definition scale10 :: "nat \<Rightarrow> int \<Rightarrow> real" where
  "scale10 m k = (if 0 \<le> k then of_nat m * 10 ^ nat k else of_nat m / 10 ^ nat (- k))"

definition exponent_part :: "string \<Rightarrow> int option" where
  "exponent_part s =
     (case s of
        [] \<Rightarrow> Some 0
      | c # r \<Rightarrow>
          if c = CHR ''e'' \<or> c = CHR ''E'' then
            (let (neg, ds) = (case r of
                               [] \<Rightarrow> (False, [])
                             | d # r' \<Rightarrow> if d = CHR ''-'' then (True, r')
                                         else if d = CHR ''+'' then (False, r') else (False, r))
             in if ds = [] \<or> \<not> list_all is_digit ds then None
                else map_option (\<lambda>n. if neg then - int n else int n) (digits_val 10 0 ds))
          else None)"

definition unsigned_decimal :: "string \<Rightarrow> real option" where
  "unsigned_decimal s =
     (let ip = takeWhile is_digit s; r1 = dropWhile is_digit s;
          (has_dot, fp, r2) =
            (case r1 of
               [] \<Rightarrow> (False, [], [])
             | c # r \<Rightarrow> if c = CHR ''.'' then (True, takeWhile is_digit r, dropWhile is_digit r)
                        else (False, [], r1))
      in if ip = [] \<and> fp = [] then None
         else case (digits_val 10 0 (ip @ fp), exponent_part r2) of
                (Some m, Some e) \<Rightarrow> Some (scale10 m (e - int (length fp)))
              | _ \<Rightarrow> None)"

definition unsigned_literal :: "string \<Rightarrow> jsnum" where
  "unsigned_literal s =
     (if s = ''Infinity'' then PosInf
      else case unsigned_decimal s of None \<Rightarrow> NaN | Some r \<Rightarrow> Num r)"

fun negate :: "jsnum \<Rightarrow> jsnum" where
  "negate NaN = NaN"
| "negate NegInf = PosInf"
| "negate PosInf = NegInf"
| "negate (Num r) = Num (- r)"

definition string_to_number :: "string \<Rightarrow> jsnum" where
  "string_to_number s =
     (let t = trim s in
      case t of
        [] \<Rightarrow> Num 0
      | c # r \<Rightarrow>
          if c = CHR ''+'' then unsigned_literal r
          else if c = CHR ''-'' then negate (unsigned_literal r)
          else if c = CHR ''0'' \<and> r \<noteq> [] \<and> hd r \<in> {CHR ''x'', CHR ''X''} then radix_literal 16 (tl r)
          else if c = CHR ''0'' \<and> r \<noteq> [] \<and> hd r \<in> {CHR ''o'', CHR ''O''} then radix_literal 8 (tl r)
          else if c = CHR ''0'' \<and> r \<noteq> [] \<and> hd r \<in> {CHR ''b'', CHR ''B''} then radix_literal 2 (tl r)
          else unsigned_literal t)"

text \<open>
  The conversion of a value to a number. An object is \<^verbatim>\<open>NaN\<close>; an array converts
  through its \<^verbatim>\<open>join\<close>, so the empty array is 0, a one-element array converts as its
  element printed and read back, and a longer array holds a comma and is \<^verbatim>\<open>NaN\<close>.
\<close>

fun to_number :: "json \<Rightarrow> jsnum" where
  "to_number JNull = Num 0"
| "to_number (JBool b) = Num (if b then 1 else 0)"
| "to_number (JNum r) = Num r"
| "to_number (JStr s) = string_to_number s"
| "to_number (JObj kvs) = NaN"
| "to_number (JArr []) = Num 0"
| "to_number (JArr [JNull]) = Num 0"
| "to_number (JArr [JBool b]) = NaN"
| "to_number (JArr [JNum r]) = Num r"
| "to_number (JArr [JStr s]) = string_to_number s"
| "to_number (JArr [JObj kvs]) = NaN"
| "to_number (JArr [JArr ys]) = to_number (JArr ys)"
| "to_number (JArr (x # y # zs)) = NaN"

fun Math_min :: "jsnum \<Rightarrow> jsnum \<Rightarrow> jsnum" where
  "Math_min NaN y = NaN"
| "Math_min x NaN = NaN"
| "Math_min NegInf y = NegInf"
| "Math_min x NegInf = NegInf"
| "Math_min PosInf y = y"
| "Math_min x PosInf = x"
| "Math_min (Num a) (Num b) = Num (min a b)"

fun Math_max :: "jsnum \<Rightarrow> jsnum \<Rightarrow> jsnum" where
  "Math_max NaN y = NaN"
| "Math_max x NaN = NaN"
| "Math_max PosInf y = PosInf"
| "Math_max x PosInf = PosInf"
| "Math_max NegInf y = y"
| "Math_max x NegInf = x"
| "Math_max (Num a) (Num b) = Num (max a b)"

text \<open>
  The conversion of a value to a string. Printing a number is the parameter \<open>ns\<close>.
\<close>

fun to_string :: "(real \<Rightarrow> string) \<Rightarrow> json \<Rightarrow> string" where
  "to_string ns JNull = ''null''"
| "to_string ns (JBool b) = (if b then ''true'' else ''false'')"
| "to_string ns (JNum r) = ns r"
| "to_string ns (JStr s) = s"
| "to_string ns (JObj kvs) = ''[object Object]''"
| "to_string ns (JArr xs) =
     join '','' (map (\<lambda>x. if x = JNull then [] else to_string ns x) xs)"

section \<open>The translator (command-parser.ts)\<close>

text \<open>
  The language model is a function from the user's input to the outcome of
  \<^verbatim>\<open>generateText\<close> on the prompt built from that input: the call throws with a
  message, or returns an object whose \<^verbatim>\<open>text\<close> is a string or is missing.
  \<^verbatim>\<open>JSON.parse\<close> is a parameter that returns the message of the exception it throws or
  the parsed value. \<open>number_to_string\<close> prints integral numbers and serves where a
  closed example needs a printer.
\<close>

definition number_to_string :: "real \<Rightarrow> string" where
  "number_to_string r = show_int \<lfloor>r\<rfloor>"

datatype llm_outcome = Threw string | Returned "string option"

record LLMCommand =
  lc_intent :: json
  lc_appName :: "json option"
  lc_image :: "json option"
  lc_replicas :: "json option"
  lc_ports :: "json option"
  lc_confidence :: jsnum
  lc_reasoning :: json

definition is_alnum :: "char \<Rightarrow> bool" where
  "is_alnum c =
     (let n = (of_char c :: nat) in
      (48 \<le> n \<and> n \<le> 57) \<or> (65 \<le> n \<and> n \<le> 90) \<or> (97 \<le> n \<and> n \<le> 122))"

definition replace_non_alnum :: "string \<Rightarrow> string" where
  "replace_non_alnum s = map (\<lambda>c. if is_alnum c then c else CHR ''-'') s"

text \<open>
  \<^verbatim>\<open>jsonText.match(/\{.*\}/s)\<close>: the match runs from the first opening brace to the last
  closing brace after it; without a match the text is kept.
\<close>

definition extract_json :: "string \<Rightarrow> string" where
  "extract_json jsonText =
     (let from_brace = dropWhile (\<lambda>c. c \<noteq> CHR ''{'') jsonText;
          matched = rev (dropWhile (\<lambda>c. c \<noteq> CHR ''}'') (rev from_brace))
      in if matched = [] then jsonText else matched)"

definition null_to_undefined :: "json option \<Rightarrow> json option" where
  "null_to_undefined v = (if v = Some (JStr ''null'') then None else v)"

definition or_undefined :: "json option \<Rightarrow> json option" where
  "or_undefined v = (if truthy v then v else None)"

definition clamp_confidence :: "json option \<Rightarrow> jsnum" where
  "clamp_confidence v = Math_max (Num 0) (Math_min (Num 1) (to_number (js_or v (JNum 0.5))))"

text \<open>
  The part of the \<^verbatim>\<open>try\<close> block after \<^verbatim>\<open>JSON.parse\<close>. \<open>Inl\<close> is the message of
  a \<^verbatim>\<open>TypeError\<close>: reading a property of \<^verbatim>\<open>null\<close>, or calling \<^verbatim>\<open>replace\<close> on
  an image that is not a string.
\<close>

definition sanitize_response :: "(real \<Rightarrow> string) \<Rightarrow> json \<Rightarrow> string + LLMCommand" where
  "sanitize_response ns parsed =
     (if parsed = JNull then Inl ''Cannot read properties of null (reading 'intent')''
      else
        let result =
              \<lparr>lc_intent = js_or (get_prop parsed ''intent'') (JStr ''help''),
               lc_appName = null_to_undefined (get_prop parsed ''appName''),
               lc_image = null_to_undefined (get_prop parsed ''image''),
               lc_replicas = or_undefined (get_prop parsed ''replicas''),
               lc_ports = or_undefined (get_prop parsed ''ports''),
               lc_confidence = clamp_confidence (get_prop parsed ''confidence''),
               lc_reasoning = js_or (get_prop parsed ''reasoning'') (JStr ''LLM analysis completed'')\<rparr>
        in if lc_intent result = JStr ''deploy'' \<and> \<not> truthy (lc_appName result)
              \<and> truthy (lc_image result) then
             (case lc_image result of
                Some (JStr img) \<Rightarrow>
                  let appName = replace_non_alnum img @ ''-app'' in
                  Inr (result\<lparr>lc_appName := Some (JStr appName),
                              lc_reasoning := JStr (to_string ns (lc_reasoning result)
                                 @ '' (auto-generated app name: '' @ appName @ '')'')\<rparr>)
              | _ \<Rightarrow> Inl ''result.image.replace is not a function'')
           else Inr result)"

definition parseCommand ::
  "(real \<Rightarrow> string) \<Rightarrow> (string \<Rightarrow> string + json) \<Rightarrow> (string \<Rightarrow> llm_outcome) \<Rightarrow> string
   \<Rightarrow> LLMCommand" where
  "parseCommand ns JSON_parse generateText input =
     (let attempt =
            (case generateText input of
               Threw msg \<Rightarrow> Inl msg
             | Returned None \<Rightarrow> Inl ''Cannot read properties of undefined (reading 'trim')''
             | Returned (Some text) \<Rightarrow>
                 (case JSON_parse (extract_json (trim text)) of
                    Inl msg \<Rightarrow> Inl msg
                  | Inr parsed \<Rightarrow> sanitize_response ns parsed))
      in case attempt of
           Inr result \<Rightarrow> result
         | Inl msg \<Rightarrow>
             \<lparr>lc_intent = JStr ''help'', lc_appName = None, lc_image = None,
              lc_replicas = None, lc_ports = None, lc_confidence = Num 0.1,
              lc_reasoning = JStr (''Failed to parse command: '' @ msg)\<rparr>)"

subsection \<open>Example replies\<close>

definition reply_high :: string where
  \<open>reply_high = ''{"intent":"status","confidence":"high"}''\<close>


definition analysis_high :: string where
  \<open>analysis_high = ''{"rootCause":"Disk full","confidence":"high"}''\<close>

text \<open>
  An instance of the parser parameter for the closed examples: it parses the three
  example replies and rejects every other text.
\<close>

definition parse_examples :: "string \<Rightarrow> string + json" where
  \<open>parse_examples t =
     (if t = ''{"intent":"status","confidence":"high"}'' then
        Inr (JObj [(''intent'', JStr ''status''), (''confidence'', JStr ''high'')])
      else if t = ''{"intent":"deploy","image":"nginx:latest","confidence":5}'' then
        Inr (JObj [(''intent'', JStr ''deploy''), (''image'', JStr ''nginx:latest''),
                   (''confidence'', JNum 5)])
      else if t = ''{"rootCause":"Disk full","confidence":"high"}'' then
        Inr (JObj [(''rootCause'', JStr ''Disk full''), (''confidence'', JStr ''high'')])
      else Inl ''Unexpected token in JSON'')\<close>

text \<open>A model that gives the same outcome for every input.\<close>

definition constant_model :: "llm_outcome \<Rightarrow> string \<Rightarrow> llm_outcome" where
  "constant_model outcome input = outcome"


text \<open>The command that the \<^verbatim>\<open>catch\<close> block of \<^verbatim>\<open>parseCommand\<close> returns.\<close>

definition help_command :: "string \<Rightarrow> LLMCommand" where
  "help_command msg =
     \<lparr>lc_intent = JStr ''help'', lc_appName = None, lc_image = None,
      lc_replicas = None, lc_ports = None, lc_confidence = Num 0.1,
      lc_reasoning = JStr (''Failed to parse command: '' @ msg)\<rparr>"

section \<open>Failure analysis: the rule-based tier (failure-analyzer.ts)\<close>

text \<open>
  Strings are lists of characters, standing for code units below 256.
  \<^verbatim>\<open>String.prototype.includes\<close> is the contiguous sublist test;
  \<^verbatim>\<open>toLowerCase\<close> maps the letters A to Z and the capital letters of Latin-1 to
  their small letters, 32 code units further, and leaves every other character as it is.
\<close>

definition str_includes :: "string \<Rightarrow> string \<Rightarrow> bool" where
  "str_includes s sub = sublist sub s"

definition lower_char :: "char \<Rightarrow> char" where
  "lower_char c =
     (let n = (of_char c :: nat) in
      if (65 \<le> n \<and> n \<le> 90) \<or> (192 \<le> n \<and> n \<le> 214) \<or> (216 \<le> n \<and> n \<le> 222)
      then char_of (n + 32) else c)"

definition toLowerCase :: "string \<Rightarrow> string" where
  "toLowerCase s = map lower_char s"

record Analysis =
  rootCause :: json
  explanation :: json
  suggestedFix :: json
  confidence :: jsnum

definition performRuleBasedLogAnalysis :: "NosanaContainer \<Rightarrow> string \<Rightarrow> Analysis" where
  "performRuleBasedLogAnalysis container logs =
     (let lowerLogs = toLowerCase logs in
      if str_includes lowerLogs ''pull''
         \<and> (str_includes lowerLogs ''failed'' \<or> str_includes lowerLogs ''error'') then
        \<lparr>rootCause = JStr ''Image Pull Failed'',
         explanation = JStr ''The container image could not be pulled from the registry. This might be due to network issues, authentication problems, or the image not existing.'',
         suggestedFix = JStr ''Verify the image name and tag, check network connectivity to the registry, and ensure proper authentication credentials are configured.'',
         confidence = Num 0.90\<rparr>
      else if str_includes lowerLogs ''port''
         \<and> (str_includes lowerLogs ''already in use'' \<or> str_includes lowerLogs ''bind'') then
        \<lparr>rootCause = JStr ''Port Already In Use'',
         explanation = JStr ''The container tried to bind to a port that is already being used by another process or container.'',
         suggestedFix = JStr ''Change the port mapping to use an available port, or stop the process/container using the conflicting port.'',
         confidence = Num 0.92\<rparr>
      else if str_includes lowerLogs ''out of memory'' \<or> str_includes lowerLogs ''oom''
         \<or> str_includes lowerLogs ''killed'' then
        \<lparr>rootCause = JStr ''Out of Memory'',
         explanation = JStr ''The container was killed because it exceeded the available memory limits.'',
         suggestedFix = JStr ''Increase memory limits for the container or optimize the application to use less memory.'',
         confidence = Num 0.95\<rparr>
      else if str_includes lowerLogs ''connection''
         \<and> (str_includes lowerLogs ''refused'' \<or> str_includes lowerLogs ''timeout'') then
        \<lparr>rootCause = JStr ''Database Connection Failed'',
         explanation = JStr ''The application cannot connect to its database. This could be due to network issues, incorrect credentials, or the database being unavailable.'',
         suggestedFix = JStr ''Verify database connection settings, ensure the database service is running, and check network connectivity.'',
         confidence = Num 0.85\<rparr>
      else if str_includes lowerLogs ''permission denied'' \<or> str_includes lowerLogs ''access denied'' then
        \<lparr>rootCause = JStr ''Permission Denied'',
         explanation = JStr ''The container doesn't have the necessary permissions to access required files, directories, or resources.'',
         suggestedFix = JStr ''Check file permissions, run the container with appropriate user privileges, or modify the security context.'',
         confidence = Num 0.88\<rparr>
      else if str_includes lowerLogs ''not found'' \<or> str_includes lowerLogs ''no such file''
         \<or> str_includes lowerLogs ''command not found'' then
        \<lparr>rootCause = JStr ''Missing Dependencies'',
         explanation = JStr ''The container is missing required files, commands, or dependencies needed to run the application.'',
         suggestedFix = JStr ''Verify the Docker image includes all necessary dependencies, or update the image to include missing components.'',
         confidence = Num 0.82\<rparr>
      else if str_includes lowerLogs ''config''
         \<and> (str_includes lowerLogs ''invalid'' \<or> str_includes lowerLogs ''missing'') then
        \<lparr>rootCause = JStr ''Configuration Error'',
         explanation = JStr ''The application configuration is invalid or missing required settings.'',
         suggestedFix = JStr ''Check configuration files, environment variables, and ensure all required settings are provided.'',
         confidence = Num 0.80\<rparr>
      else if str_includes lowerLogs ''network'' \<or> str_includes lowerLogs ''dns'' then
        \<lparr>rootCause = JStr ''Network Connectivity Issue'',
         explanation = JStr ''The container is experiencing network connectivity problems or DNS resolution failures.'',
         suggestedFix = JStr ''Check network configuration, DNS settings, and ensure required services are accessible.'',
         confidence = Num 0.75\<rparr>
      else
        \<lparr>rootCause = JStr ''Container Startup Failed'',
         explanation = JStr ''The container failed to start properly. The logs may contain more specific error information.'',
         suggestedFix = JStr ''Review the complete container logs, check the application configuration, and verify all dependencies are available.'',
         confidence = Num 0.50\<rparr>)"

subsection \<open>The language-model tier\<close>

definition performAILogAnalysis ::
  "(string \<Rightarrow> string + json) \<Rightarrow> llm_outcome \<Rightarrow> NosanaContainer \<Rightarrow> string \<Rightarrow> Analysis" where
  "performAILogAnalysis JSON_parse response container logs =
     (case response of
        Threw msg \<Rightarrow> performRuleBasedLogAnalysis container logs
      | Returned None \<Rightarrow> performRuleBasedLogAnalysis container logs
      | Returned (Some text) \<Rightarrow>
          (case JSON_parse text of
             Inl msg \<Rightarrow> performRuleBasedLogAnalysis container logs
           | Inr analysis \<Rightarrow>
               if analysis = JNull then performRuleBasedLogAnalysis container logs
               else
                 \<lparr>rootCause = js_or (get_prop analysis ''rootCause'') (JStr ''Unknown failure''),
                  explanation = js_or (get_prop analysis ''explanation'')
                                  (JStr ''Could not determine specific cause from logs''),
                  suggestedFix = js_or (get_prop analysis ''suggestedFix'')
                                   (JStr ''Review container configuration and logs''),
                  confidence = clamp_confidence (get_prop analysis ''confidence'')\<rparr>))"

subsection \<open>The rule table, in the words of the specification\<close>

text \<open>
  The specification gives the fallback tier as an ordered list of rules, each a predicate
  on the lowercased logs with a root cause and a fixed confidence, the first match
  winning, and a default at the end. \<open>rule_table\<close> is that list, the root causes under
  the names the source gives them.
\<close>

definition pull_failure :: "string \<Rightarrow> bool" where
  "pull_failure l = (str_includes l ''pull'' \<and> (str_includes l ''failed'' \<or> str_includes l ''error''))"

definition port_conflict :: "string \<Rightarrow> bool" where
  "port_conflict l = (str_includes l ''port'' \<and> (str_includes l ''already in use'' \<or> str_includes l ''bind''))"

definition out_of_memory :: "string \<Rightarrow> bool" where
  "out_of_memory l = (str_includes l ''out of memory'' \<or> str_includes l ''oom'' \<or> str_includes l ''killed'')"

definition connection_failure :: "string \<Rightarrow> bool" where
  "connection_failure l =
     (str_includes l ''connection'' \<and> (str_includes l ''refused'' \<or> str_includes l ''timeout''))"

definition permission_denied :: "string \<Rightarrow> bool" where
  "permission_denied l = (str_includes l ''permission denied'' \<or> str_includes l ''access denied'')"

definition missing_dependency :: "string \<Rightarrow> bool" where
  "missing_dependency l =
     (str_includes l ''not found'' \<or> str_includes l ''no such file'' \<or> str_includes l ''command not found'')"

definition config_error :: "string \<Rightarrow> bool" where
  "config_error l = (str_includes l ''config'' \<and> (str_includes l ''invalid'' \<or> str_includes l ''missing''))"

definition network_issue :: "string \<Rightarrow> bool" where
  "network_issue l = (str_includes l ''network'' \<or> str_includes l ''dns'')"

definition rule_table :: "((string \<Rightarrow> bool) \<times> string \<times> real) list" where
  "rule_table =
     [(pull_failure, ''Image Pull Failed'', 0.90),
      (port_conflict, ''Port Already In Use'', 0.92),
      (out_of_memory, ''Out of Memory'', 0.95),
      (connection_failure, ''Database Connection Failed'', 0.85),
      (permission_denied, ''Permission Denied'', 0.88),
      (missing_dependency, ''Missing Dependencies'', 0.82),
      (config_error, ''Configuration Error'', 0.80),
      (network_issue, ''Network Connectivity Issue'', 0.75)]"

fun first_match :: "((string \<Rightarrow> bool) \<times> string \<times> real) list \<Rightarrow> string \<Rightarrow> string \<times> real" where
  "first_match [] l = (''Container Startup Failed'', 0.50)"
| "first_match ((p, cause, conf) # rs) l = (if p l then (cause, conf) else first_match rs l)"

definition some_container :: NosanaContainer where
  "some_container = \<lparr>cont_id = ''c1'', cont_name = ''kubelite-web-1'', cont_image = ''nginx'',
                     cont_status = ''failed'', cont_createdAt = 1000,
                     cont_labels = Some [(''kubelite.managed'', ''true''), (''kubelite.app'', ''web'')]\<rparr>"

section \<open>The runtime client (nosana-client.ts)\<close>

text \<open>
  The client keeps a registry of containers, a \<^verbatim>\<open>Map\<close> from container id to
  container, and a counter for container names. Docker is outside the repository and is
  a parameter: \<open>docker_run n name labels image\<close> is what the \<open>n\<close>-th
  \<^verbatim>\<open>docker run\<close> of the client and the \<^verbatim>\<open>docker inspect\<close> after it give, the
  message of the failing command or the id and the inspected fields of the new
  container; \<open>docker_stop id\<close> is the message of a failing \<^verbatim>\<open>docker stop\<close> or
  \<^verbatim>\<open>docker rm\<close>, or \<open>None\<close> when both succeed. The maps of logs and failure reasons
  are never read by the controller and are left out.
\<close>

record DockerRun =
  dr_id :: string
  dr_image :: string
  dr_status :: string
  dr_created :: int

record Docker =
  docker_run :: "nat \<Rightarrow> string \<Rightarrow> (string \<times> string) list \<Rightarrow> string \<Rightarrow> string + DockerRun"
  docker_stop :: "string \<Rightarrow> string option"

record NosanaClient =
  containers :: "(string \<times> NosanaContainer) list"
  nextId :: nat

definition new_client :: NosanaClient where
  "new_client = \<lparr>containers = [], nextId = 1\<rparr>"

text \<open>\<^verbatim>\<open>container.labels?.[key]\<close>.\<close>

definition label :: "NosanaContainer \<Rightarrow> string \<Rightarrow> string option" where
  "label c k = (case cont_labels c of None \<Rightarrow> None | Some ls \<Rightarrow> map_of ls k)"

text \<open>
  The object \<^verbatim>\<open>{...labels, "kubelite.managed": "true", "kubelite.app": name}\<close>.
\<close>

definition make_labels :: "(string \<times> string) list option \<Rightarrow> string \<Rightarrow> (string \<times> string) list" where
  "make_labels labels name =
     AList.update ''kubelite.app'' name
       (AList.update ''kubelite.managed'' ''true'' (case labels of None \<Rightarrow> [] | Some ls \<Rightarrow> ls))"

definition deployContainer ::
  "Docker \<Rightarrow> string \<Rightarrow> string \<Rightarrow> (string \<times> string) list option \<Rightarrow> NosanaClient
   \<Rightarrow> (string + string) \<times> NosanaClient" where
  "deployContainer docker img name labels s =
     (let containerName = ''kubelite-'' @ name @ ''-'' @ show_nat (nextId s);
          s1 = s\<lparr>nextId := nextId s + 1\<rparr>
      in case docker_run docker (nextId s) containerName (make_labels labels name) img of
           Inl err \<Rightarrow> (Inl (''Failed to deploy container: '' @ err), s1)
         | Inr r \<Rightarrow>
             (Inr (dr_id r),
              s1\<lparr>containers :=
                   AList.update (dr_id r)
                     \<lparr>cont_id = dr_id r, cont_name = containerName, cont_image = dr_image r,
                      cont_status = dr_status r, cont_createdAt = dr_created r,
                      cont_labels = Some (make_labels labels name)\<rparr>
                     (containers s1)\<rparr>))"

definition stopContainer ::
  "Docker \<Rightarrow> string \<Rightarrow> NosanaClient \<Rightarrow> (string + unit) \<times> NosanaClient" where
  "stopContainer docker cid s =
     (case map_of (containers s) cid of
        None \<Rightarrow>
          (Inl (''Failed to stop container: Container '' @ cid @ '' not found in local registry''), s)
      | Some container \<Rightarrow>
          (case docker_stop docker cid of
             Some err \<Rightarrow> (Inl (''Failed to stop container: '' @ err), s)
           | None \<Rightarrow> (Inr (), s\<lparr>containers := AList.delete cid (containers s)\<rparr>)))"

definition getContainersByApp :: "NosanaClient \<Rightarrow> string \<Rightarrow> NosanaContainer list" where
  "getContainersByApp s appName =
     filter (\<lambda>container. label container ''kubelite.app'' = Some appName)
       (map snd (containers s))"


section \<open>The reconciliation controller (orchestrator.ts)\<close>

text \<open>
  A cycle returns the calls it made to the client, in order, its outcome (\<open>Inl\<close> the
  message of the exception that ended it) and the client afterwards. A call that throws
  ends the loop it is in, as the exception does.
\<close>

datatype RuntimeCall = DeployCall string string | StopCall string

fun deploy_loop ::
  "Docker \<Rightarrow> KubeLiteApp \<Rightarrow> nat \<Rightarrow> NosanaClient
   \<Rightarrow> RuntimeCall list \<times> (string + unit) \<times> NosanaClient" where
  "deploy_loop docker a 0 s = ([], Inr (), s)"
| "deploy_loop docker a (Suc n) s =
     (case deployContainer docker (app_image a) (app_name a) None s of
        (Inl err, s') \<Rightarrow> ([DeployCall (app_image a) (app_name a)], Inl err, s')
      | (Inr cid, s') \<Rightarrow>
          (case deploy_loop docker a n s' of
             (calls, outcome, s'') \<Rightarrow>
               (DeployCall (app_image a) (app_name a) # calls, outcome, s'')))"

fun stop_loop ::
  "Docker \<Rightarrow> NosanaContainer list \<Rightarrow> NosanaClient
   \<Rightarrow> RuntimeCall list \<times> (string + unit) \<times> NosanaClient" where
  "stop_loop docker [] s = ([], Inr (), s)"
| "stop_loop docker (container # rest) s =
     (case stopContainer docker (cont_id container) s of
        (Inl err, s') \<Rightarrow> ([StopCall (cont_id container)], Inl err, s')
      | (Inr u, s') \<Rightarrow>
          (case stop_loop docker rest s' of
             (calls, outcome, s'') \<Rightarrow> (StopCall (cont_id container) # calls, outcome, s'')))"

text \<open>
  \<^verbatim>\<open>Array.prototype.sort\<close> is stable, and so is \<^const>\<open>sort_key\<close>;
  \<^verbatim>\<open>slice(0, toRemove)\<close> is \<^const>\<open>take\<close>.
\<close>

definition reconcileApp ::
  "Docker \<Rightarrow> KubeLiteApp \<Rightarrow> NosanaContainer list \<Rightarrow> NosanaClient
   \<Rightarrow> RuntimeCall list \<times> (string + unit) \<times> NosanaClient" where
  "reconcileApp docker desiredApp currentContainers s =
     (let currentReplicas = int (length currentContainers);
          desiredReplicas = app_replicas desiredApp
      in if currentReplicas < desiredReplicas then
           deploy_loop docker desiredApp (nat (desiredReplicas - currentReplicas)) s
         else if currentReplicas > desiredReplicas then
           (let toRemove = currentReplicas - desiredReplicas;
                containersToRemove =
                  take (nat toRemove) (sort_key cont_createdAt currentContainers)
            in stop_loop docker containersToRemove s)
         else ([], Inr (), s))"

definition parseFromFile ::
  "(string \<Rightarrow> string + 't) \<Rightarrow> ('t \<Rightarrow> string + KubeLiteManifest option) \<Rightarrow> string
   \<Rightarrow> string + KubeLiteApp" where
  "parseFromFile readFileSync load filePath =
     (case readFileSync filePath of
        Inl e \<Rightarrow> Inl (''Failed to read manifest file '' @ filePath @ '': '' @ e)
      | Inr fileContent \<Rightarrow>
          (case parseFromString load fileContent of
             Inl e \<Rightarrow> Inl (''Failed to read manifest file '' @ filePath @ '': Error: '' @ e)
           | Inr a \<Rightarrow> Inr a))"

definition reconcile ::
  "(string \<Rightarrow> string + 't) \<Rightarrow> ('t \<Rightarrow> string + KubeLiteManifest option) \<Rightarrow> Docker \<Rightarrow> string
   \<Rightarrow> NosanaClient \<Rightarrow> RuntimeCall list \<times> (string + unit) \<times> NosanaClient" where
  "reconcile readFileSync load docker manifestPath s =
     (case parseFromFile readFileSync load manifestPath of
        Inl e \<Rightarrow> ([], Inl e, s)
      | Inr desiredApp \<Rightarrow>
          reconcileApp docker desiredApp (getContainersByApp s (app_name desiredApp)) s)"


section \<open>Invariants of the registry and example runtimes\<close>

text \<open>
  The registry is well formed when its keys are distinct and every container is stored
  under its own id; the constructor, \<^verbatim>\<open>deployContainer\<close>, \<^verbatim>\<open>stopContainer\<close> and
  \<^verbatim>\<open>getRunningContainers\<close> keep it so.
\<close>

definition registry_ok :: "NosanaClient \<Rightarrow> bool" where
  "registry_ok s =
     (distinct (map fst (containers s)) \<and> (\<forall>(k, c) \<in> set (containers s). cont_id c = k))"

text \<open>
  Docker gives every new container an id of its own: from the client's next call on, no
  \<^verbatim>\<open>docker run\<close> returns an id that the registry holds or that another call returns.
\<close>

definition fresh_ids :: "Docker \<Rightarrow> NosanaClient \<Rightarrow> bool" where
  "fresh_ids docker s =
     (\<forall>n name ls img r. nextId s \<le> n \<longrightarrow> docker_run docker n name ls img = Inr r \<longrightarrow>
        dr_id r \<notin> fst ` set (containers s)
        \<and> (\<forall>m name' ls' img' r'. n < m \<longrightarrow> docker_run docker m name' ls' img' = Inr r' \<longrightarrow>
              dr_id r' \<noteq> dr_id r))"



text \<open>
  Example runtimes: one whose commands all succeed and that names the \<open>n\<close>-th container
  by \<open>n\<close> letters, and one whose \<^verbatim>\<open>docker stop\<close> fails for the container \<open>c1\<close>.
\<close>

definition healthy_run :: "nat \<Rightarrow> string \<Rightarrow> (string \<times> string) list \<Rightarrow> string \<Rightarrow> string + DockerRun" where
  "healthy_run n name ls img =
     Inr \<lparr>dr_id = replicate n (CHR ''c''), dr_image = img, dr_status = ''running'',
          dr_created = int n\<rparr>"

definition never_fails :: "string \<Rightarrow> string option" where
  "never_fails cid = None"


definition healthy_docker :: Docker where
  "healthy_docker = \<lparr>docker_run = healthy_run, docker_stop = never_fails\<rparr>"





text \<open>A file system in which every path holds the manifest of \<open>web_app\<close>.\<close>

definition manifest_on_disk :: "string \<Rightarrow> string + KubeLiteManifest" where
  "manifest_on_disk filePath = Inr (appToManifest web_app)"

section \<open>Properties of the store\<close>

lemma handleDeploy_failure_keeps_state:
  "\<not> success (fst (handleDeploy s c)) \<Longrightarrow> snd (handleDeploy s c) = s"
  by (auto simp: handleDeploy_def failure_def Let_def split: option.splits if_splits)

lemma handleScale_failure_keeps_state:
  "\<not> success (fst (handleScale s c)) \<Longrightarrow> snd (handleScale s c) = s"
  by (auto simp: handleScale_def failure_def Let_def split: option.splits if_splits)

lemma handleDelete_failure_keeps_state:
  "\<not> success (fst (handleDelete s c)) \<Longrightarrow> snd (handleDelete s c) = s"
  by (auto simp: handleDelete_def failure_def split: option.splits if_splits)

lemma handleStatus_keeps_state: "snd (handleStatus s) = s"
  by (simp add: handleStatus_def Let_def)

text \<open>
  Claim C10. Whenever \<open>applyCommand\<close> reports \<open>success = False\<close>, the store after the
  call is the store before the call: no entry of the application map is added, removed
  or modified.
\<close>

theorem applyCommand_failure_keeps_store:
  assumes "\<not> success (fst (applyCommand s c))"
  shows "snd (applyCommand s c) = s"
proof (cases "cmd_intent c")
  case Deploy
  with assms show ?thesis by (simp add: handleDeploy_failure_keeps_state)
next
  case Scale
  with assms show ?thesis by (simp add: handleScale_failure_keeps_state)
next
  case Delete
  with assms show ?thesis by (simp add: handleDelete_failure_keeps_state)
next
  case Status
  then show ?thesis by (simp add: handleStatus_keeps_state)
next
  case Stop
  then show ?thesis by simp
next
  case Help
  then show ?thesis by simp
qed

theorem applyCommand_failure_keeps_store_witness:
  "\<not> success (fst (applyCommand
        \<lparr>applications = [(''web'', \<lparr>app_name = ''web'', app_image = ''nginx'', app_replicas = 2,
                                   app_ports = Some [], app_autoscaling = None\<rparr>)]\<rparr>
        \<lparr>cmd_intent = Scale, cmd_appName = Some ''db'', cmd_image = None,
         cmd_replicas = Some 3, cmd_ports = None\<rparr>))
   \<and> snd (applyCommand
        \<lparr>applications = [(''web'', \<lparr>app_name = ''web'', app_image = ''nginx'', app_replicas = 2,
                                   app_ports = Some [], app_autoscaling = None\<rparr>)]\<rparr>
        \<lparr>cmd_intent = Scale, cmd_appName = Some ''db'', cmd_image = None,
         cmd_replicas = Some 3, cmd_ports = None\<rparr>)
     = \<lparr>applications = [(''web'', \<lparr>app_name = ''web'', app_image = ''nginx'', app_replicas = 2,
                                   app_ports = Some [], app_autoscaling = None\<rparr>)]\<rparr>"
proof -
  have h: "\<not> success (fst (applyCommand
        \<lparr>applications = [(''web'', \<lparr>app_name = ''web'', app_image = ''nginx'', app_replicas = 2,
                                   app_ports = Some [], app_autoscaling = None\<rparr>)]\<rparr>
        \<lparr>cmd_intent = Scale, cmd_appName = Some ''db'', cmd_image = None,
         cmd_replicas = Some 3, cmd_ports = None\<rparr>))"
    by (simp add: handleScale_def failure_def)
  from h applyCommand_failure_keeps_store [OF h] show ?thesis by simp
qed




section \<open>Properties of the manifest round trip\<close>

lemma manifestToApp_appToManifest:
  assumes "app_name a \<noteq> []" and "app_image a \<noteq> []"
  shows "manifestToApp (Some (appToManifest a)) =
         Inr \<lparr>app_name = app_name a, app_image = app_image a,
              app_replicas = (if app_replicas a = 0 then 1 else app_replicas a),
              app_ports = (case app_ports a of
                             None \<Rightarrow> None | Some ps \<Rightarrow> if ps = [] then None else Some ps),
              app_autoscaling = app_autoscaling a\<rparr>"
  using assms
  by (simp add: manifestToApp_def appToManifest_def manifest_name_def manifest_image_def
      comp_def split: option.splits)

text \<open>
  Claim C5, as the source has it. Let the serializer give back the document it wrote.
  For every application with a non-empty name, a non-empty image and a replica count
  other than 0, writing the manifest and parsing it back succeeds and preserves name,
  image, replica count and autoscaling policy; a non-empty port list is preserved, and
  an absent or empty port list reads back as absent.
\<close>

theorem manifest_round_trip:
  assumes "load (dump (appToManifest a)) = Inr (Some (appToManifest a))"
    and "app_name a \<noteq> []" and "app_image a \<noteq> []" and "app_replicas a \<noteq> 0"
  shows "parseFromString load (appToYaml dump a) =
         Inr \<lparr>app_name = app_name a, app_image = app_image a,
              app_replicas = app_replicas a,
              app_ports = (case app_ports a of
                             None \<Rightarrow> None | Some ps \<Rightarrow> if ps = [] then None else Some ps),
              app_autoscaling = app_autoscaling a\<rparr>"
  using assms
  by (simp add: parseFromString_def appToYaml_def manifestToApp_appToManifest)

theorem manifest_round_trip_witness:
  "lossless_load (lossless_dump (appToManifest web_app)) = Inr (Some (appToManifest web_app))
   \<and> parseFromString lossless_load (appToYaml lossless_dump web_app) = Inr web_app"
proof -
  have h: "lossless_load (lossless_dump (appToManifest web_app))
           = Inr (Some (appToManifest web_app))"
    by (simp add: lossless_load_def lossless_dump_def)
  from h manifest_round_trip [of lossless_load lossless_dump web_app] show ?thesis
    by (simp add: web_app_def)
qed

text \<open>
  Claim C5 as stated fails in two ways, even through a lossless serializer. The
  application \<open>web\<close> with an empty port list reads back without a port list, since
  \<^verbatim>\<open>appToYaml\<close> writes ports only when there are some. And the application \<open>web\<close>
  with 0 replicas reads back with 1 replica.
\<close>

theorem manifest_round_trip_counterexample:
  "parseFromString lossless_load (appToYaml lossless_dump (web_app\<lparr>app_ports := Some []\<rparr>))
   = Inr (web_app\<lparr>app_ports := None\<rparr>)
   \<and> parseFromString lossless_load (appToYaml lossless_dump (web_app\<lparr>app_replicas := 0\<rparr>))
   = Inr (web_app\<lparr>app_replicas := 1\<rparr>)"
  by (simp add: parseFromString_def appToYaml_def lossless_load_def lossless_dump_def
      manifestToApp_def appToManifest_def manifest_name_def manifest_image_def web_app_def)

section \<open>Properties of the rule-based classifier\<close>

lemma includes_toLowerCase:
  assumes "str_includes logs phrase" and "toLowerCase phrase = phrase"
  shows "str_includes (toLowerCase logs) phrase"
proof -
  from assms(1) have "sublist (map lower_char phrase) (map lower_char logs)"
    unfolding str_includes_def by (rule map_mono_sublist)
  with assms(2) show ?thesis
    by (simp add: str_includes_def toLowerCase_def)
qed

lemma lower_out_of_memory: "toLowerCase ''out of memory'' = ''out of memory''"
  by (simp add: toLowerCase_def lower_char_def)

lemma lower_permission_denied: "toLowerCase ''permission denied'' = ''permission denied''"
  by (simp add: toLowerCase_def lower_char_def)

lemma rule_based_is_first_match:
  "(rootCause (performRuleBasedLogAnalysis c logs),
    confidence (performRuleBasedLogAnalysis c logs))
   = (JStr (fst (first_match rule_table (toLowerCase logs))),
      Num (snd (first_match rule_table (toLowerCase logs))))"
  unfolding performRuleBasedLogAnalysis_def rule_table_def Let_def first_match.simps
    pull_failure_def port_conflict_def out_of_memory_def connection_failure_def
    permission_denied_def missing_dependency_def config_error_def network_issue_def
  by (simp only: if_distrib[of rootCause] if_distrib[of confidence] if_distrib[of fst]
      if_distrib[of snd] if_distrib[of Num] if_distrib[of JStr] Analysis.simps fst_conv snd_conv prod.inject
      split: if_split)

text \<open>
  Claim C6, as the source has it. The fallback classifier is the first match over the
  nine rules in the order pull-failure (0.90), port-conflict (0.92), out-of-memory (0.95),
  connection-failure (0.85), permission-denied (0.88), missing-dependency (0.82),
  config-error (0.80), network-issue (0.75), default (0.50), each tested on the
  lowercased logs. So every log text that contains both "permission denied" and
  "out of memory" and matches neither the pull-failure nor the port-conflict rule is
  classified as out-of-memory with confidence 0.95.
\<close>

theorem rule_based_precedence:
  "(rootCause (performRuleBasedLogAnalysis c logs),
    confidence (performRuleBasedLogAnalysis c logs))
   = (JStr (fst (first_match rule_table (toLowerCase logs))),
      Num (snd (first_match rule_table (toLowerCase logs))))
   \<and> (str_includes logs ''permission denied'' \<and> str_includes logs ''out of memory''
        \<and> \<not> pull_failure (toLowerCase logs) \<and> \<not> port_conflict (toLowerCase logs)
      \<longrightarrow> rootCause (performRuleBasedLogAnalysis c logs) = JStr ''Out of Memory''
          \<and> confidence (performRuleBasedLogAnalysis c logs) = Num 0.95)"
proof (intro conjI impI)
  show "(rootCause (performRuleBasedLogAnalysis c logs),
         confidence (performRuleBasedLogAnalysis c logs))
        = (JStr (fst (first_match rule_table (toLowerCase logs))),
           Num (snd (first_match rule_table (toLowerCase logs))))"
    by (rule rule_based_is_first_match)
next
  assume a: "str_includes logs ''permission denied'' \<and> str_includes logs ''out of memory''
             \<and> \<not> pull_failure (toLowerCase logs) \<and> \<not> port_conflict (toLowerCase logs)"
  then have oom: "str_includes (toLowerCase logs) ''out of memory''"
    using includes_toLowerCase lower_out_of_memory by blast
  from a have np: "\<not> pull_failure (toLowerCase logs)" and nb: "\<not> port_conflict (toLowerCase logs)"
    by simp_all
  from oom np show "rootCause (performRuleBasedLogAnalysis c logs) = JStr ''Out of Memory''"
    using nb unfolding performRuleBasedLogAnalysis_def Let_def pull_failure_def port_conflict_def
    by (simp del: One_nat_def)
  from oom np show "confidence (performRuleBasedLogAnalysis c logs) = Num 0.95"
    using nb unfolding performRuleBasedLogAnalysis_def Let_def pull_failure_def port_conflict_def
    by (simp del: One_nat_def)
qed

theorem rule_based_precedence_witness:
  "str_includes ''EACCES: permission denied; Out of memory: out of memory'' ''permission denied''
   \<and> str_includes ''EACCES: permission denied; Out of memory: out of memory'' ''out of memory''
   \<and> rootCause (performRuleBasedLogAnalysis some_container
        ''EACCES: permission denied; Out of memory: out of memory'') = JStr ''Out of Memory''
   \<and> confidence (performRuleBasedLogAnalysis some_container
        ''EACCES: permission denied; Out of memory: out of memory'') = Num 0.95"
proof -
  have i1: "str_includes ''EACCES: permission denied; Out of memory: out of memory'' ''permission denied''"
    unfolding str_includes_def by code_simp
  have i2: "str_includes ''EACCES: permission denied; Out of memory: out of memory'' ''out of memory''"
    unfolding str_includes_def by code_simp
  have n1: "\<not> pull_failure (toLowerCase ''EACCES: permission denied; Out of memory: out of memory'')"
    unfolding pull_failure_def str_includes_def by code_simp
  have n2: "\<not> port_conflict (toLowerCase ''EACCES: permission denied; Out of memory: out of memory'')"
    unfolding port_conflict_def str_includes_def by code_simp
  from i1 i2 n1 n2
    rule_based_precedence [of some_container
      "''EACCES: permission denied; Out of memory: out of memory''"]
  show ?thesis by blast
qed

text \<open>
  Claim C6 as stated fails: a log text with "permission denied" and "out of memory"
  that also reports a failed pull is classified by the first rule.
\<close>

theorem rule_based_precedence_counterexample:
  "str_includes ''pull failed: permission denied, out of memory'' ''permission denied''
   \<and> str_includes ''pull failed: permission denied, out of memory'' ''out of memory''
   \<and> rootCause (performRuleBasedLogAnalysis some_container
        ''pull failed: permission denied, out of memory'') = JStr ''Image Pull Failed''
   \<and> confidence (performRuleBasedLogAnalysis some_container
        ''pull failed: permission denied, out of memory'') = Num 0.90"
proof -
  have i1: "str_includes ''pull failed: permission denied, out of memory'' ''permission denied''"
    unfolding str_includes_def by code_simp
  have i2: "str_includes ''pull failed: permission denied, out of memory'' ''out of memory''"
    unfolding str_includes_def by code_simp
  have p1: "str_includes (toLowerCase ''pull failed: permission denied, out of memory'') ''pull''"
    unfolding str_includes_def by code_simp
  have p2: "str_includes (toLowerCase ''pull failed: permission denied, out of memory'') ''failed''"
    unfolding str_includes_def by code_simp
  from p1 p2 have
    "performRuleBasedLogAnalysis some_container ''pull failed: permission denied, out of memory''
     = \<lparr>rootCause = JStr ''Image Pull Failed'',
         explanation = JStr ''The container image could not be pulled from the registry. This might be due to network issues, authentication problems, or the image not existing.'',
         suggestedFix = JStr ''Verify the image name and tag, check network connectivity to the registry, and ensure proper authentication credentials are configured.'',
         confidence = Num 0.90\<rparr>"
    unfolding performRuleBasedLogAnalysis_def Let_def by (simp only: simp_thms if_True)
  with i1 i2 show ?thesis by simp
qed

section \<open>Properties of the translator and of the language-model tier\<close>

lemma string_to_number_high: "string_to_number ''high'' = NaN"
  by (simp add: string_to_number_def trim_def is_space_def unsigned_literal_def
      unsigned_decimal_def is_digit_def)

lemma clamp_confidence_number:
  "clamp_confidence (Some (JNum r)) = Num (max 0 (min 1 (if r = 0 then 0.5 else r)))"
  by (simp add: clamp_confidence_def js_or_def)

lemma clamp_confidence_number_range:
  "\<exists>c. clamp_confidence (Some (JNum r)) = Num c \<and> 0 \<le> c \<and> c \<le> 1"
  by (simp add: clamp_confidence_number)

lemma clamp_confidence_missing: "clamp_confidence None = Num 0.5"
  by (simp add: clamp_confidence_def js_or_def)

lemma clamp_confidence_examples:
  "clamp_confidence (Some (JNum 5)) = Num 1" "clamp_confidence (Some (JNum (- 1))) = Num 0"
  by (simp_all add: clamp_confidence_number)

lemma performAILogAnalysis_number_range:
  assumes "JSON_parse reply = Inr (JObj kvs)" and "map_of kvs ''confidence'' = Some (JNum r)"
  shows "\<exists>c. confidence (performAILogAnalysis JSON_parse (Returned (Some reply)) container logs)
               = Num c \<and> 0 \<le> c \<and> c \<le> 1"
  using assms by (simp add: performAILogAnalysis_def clamp_confidence_number)

lemma sanitize_response_number_range:
  assumes "map_of kvs ''confidence'' = Some (JNum r)"
    and "sanitize_response ns (JObj kvs) = Inr c"
  shows "\<exists>x. lc_confidence c = Num x \<and> 0 \<le> x \<and> x \<le> 1"
proof -
  have "lc_confidence c = clamp_confidence (Some (JNum r))"
    using assms
    by (auto simp: sanitize_response_def Let_def split: if_splits option.splits json.splits)
  then show ?thesis
    using clamp_confidence_number_range by simp
qed

text \<open>
  Claim C7 says that the confidence of every returned command and analysis lies between
  0 and 1, whatever confidence the language model sends. The sources clamp every numeric
  confidence (the lemmas above; 5 gives 1 and -1 gives 0), but a confidence that is not a
  number escapes: when the reply gives the confidence as the string "high", the
  confidence of the returned command is \<^verbatim>\<open>NaN\<close>, and so is the confidence of the
  returned analysis.
\<close>

theorem confidence_not_clamped:
  "lc_confidence (parseCommand number_to_string parse_examples
      (constant_model (Returned (Some reply_high))) ''what is running'') = NaN
   \<and> confidence (performAILogAnalysis parse_examples (Returned (Some analysis_high))
        some_container ''No space left on device'') = NaN"
  by (simp add: parseCommand_def constant_model_def reply_high_def analysis_high_def
      extract_json_def trim_def is_space_def parse_examples_def sanitize_response_def
      clamp_confidence_def js_or_def string_to_number_high null_to_undefined_def
      or_undefined_def performAILogAnalysis_def)

text \<open>
  Claim C8. \<open>parseCommand\<close> returns a command for every input and every behaviour of
  the language model and of the parser: no exception leaves it. When the call to the
  model throws, when the reply has no text, when the reply does not parse, or when
  reading the parsed value throws, the result is the command with intent \<open>help\<close>,
  confidence 0.1 and a reasoning that starts with "Failed to parse command: " followed by
  the message of the failure. In every other case the result is the sanitized reply.
\<close>

theorem parseCommand_degrades_to_help:
  "(generateText input = Threw msg \<longrightarrow>
      parseCommand ns JSON_parse generateText input = help_command msg)
   \<and> (generateText input = Returned None \<longrightarrow>
      parseCommand ns JSON_parse generateText input
        = help_command ''Cannot read properties of undefined (reading 'trim')'')
   \<and> (generateText input = Returned (Some reply) \<and> JSON_parse (extract_json (trim reply)) = Inl msg
        \<longrightarrow> parseCommand ns JSON_parse generateText input = help_command msg)
   \<and> (generateText input = Returned (Some reply)
        \<and> JSON_parse (extract_json (trim reply)) = Inr parsed
        \<and> sanitize_response ns parsed = Inl msg
        \<longrightarrow> parseCommand ns JSON_parse generateText input = help_command msg)
   \<and> ((\<exists>m. parseCommand ns JSON_parse generateText input = help_command m)
        \<or> (\<exists>t parsed. generateText input = Returned (Some t)
              \<and> JSON_parse (extract_json (trim t)) = Inr parsed
              \<and> sanitize_response ns parsed
                  = Inr (parseCommand ns JSON_parse generateText input)))"
  by (auto simp: parseCommand_def help_command_def Let_def
      split: llm_outcome.splits option.splits sum.splits)

theorem parseCommand_degrades_to_help_witness:
  "parseCommand number_to_string parse_examples
     (constant_model (Returned (Some ''I cannot help with that''))) ''deploy something''
   = help_command ''Unexpected token in JSON''"
proof -
  have g: "constant_model (Returned (Some ''I cannot help with that'')) ''deploy something''
           = Returned (Some ''I cannot help with that'')"
    by (simp add: constant_model_def)
  have p: "parse_examples (extract_json (trim ''I cannot help with that''))
           = Inl ''Unexpected token in JSON''"
    by (simp add: parse_examples_def extract_json_def trim_def is_space_def)
  from g p parseCommand_degrades_to_help [of
      "constant_model (Returned (Some ''I cannot help with that''))" "''deploy something''"
      "''Unexpected token in JSON''" number_to_string parse_examples
      "''I cannot help with that''"]
  show ?thesis by blast
qed





section \<open>Properties of the reconciliation controller\<close>

subsection \<open>Scale-down\<close>












subsection \<open>Idempotence\<close>

lemma update_fresh_key: "k \<notin> fst ` set al \<Longrightarrow> AList.update k v al = al @ [(k, v)]"
  by (induction al) auto

lemma label_make_labels_app: "map_of (make_labels labels name) ''kubelite.app'' = Some name"
  by (simp add: make_labels_def update_conv')

lemma label_make_labels_managed:
  "map_of (make_labels labels name) ''kubelite.managed'' = Some ''true''"
  by (simp add: make_labels_def update_conv')

lemma deployContainer_success:
  assumes ok: "registry_ok s" and fresh: "fresh_ids docker s"
    and dep: "deployContainer docker img name labels s = (Inr cid, s')"
  shows "\<exists>c. containers s' = containers s @ [(cid, c)] \<and> cont_id c = cid
             \<and> label c ''kubelite.app'' = Some name
             \<and> label c ''kubelite.managed'' = Some ''true''"
    and "nextId s' = Suc (nextId s)"
    and "registry_ok s'" and "fresh_ids docker s'"
proof -
  let ?cn = "''kubelite-'' @ name @ ''-'' @ show_nat (nextId s)"
  from dep obtain r where
    run: "docker_run docker (nextId s) ?cn (make_labels labels name) img = Inr r"
    and cid: "cid = dr_id r"
    and s': "s' = s\<lparr>nextId := nextId s + 1,
                   containers := AList.update (dr_id r)
                     \<lparr>cont_id = dr_id r, cont_name = ?cn, cont_image = dr_image r,
                      cont_status = dr_status r, cont_createdAt = dr_created r,
                      cont_labels = Some (make_labels labels name)\<rparr> (containers s)\<rparr>"
    by (auto simp: deployContainer_def Let_def split: sum.splits)
  from fresh run have nin: "dr_id r \<notin> fst ` set (containers s)"
    unfolding fresh_ids_def by blast
  from fresh run have later: "\<And>m name' ls' img' r'. nextId s < m \<Longrightarrow>
      docker_run docker m name' ls' img' = Inr r' \<Longrightarrow> dr_id r' \<noteq> dr_id r"
    unfolding fresh_ids_def by blast
  let ?c = "\<lparr>cont_id = dr_id r, cont_name = ?cn, cont_image = dr_image r,
             cont_status = dr_status r, cont_createdAt = dr_created r,
             cont_labels = Some (make_labels labels name)\<rparr>"
  have cs: "containers s' = containers s @ [(cid, ?c)]"
    using s' nin cid by (simp add: update_fresh_key)
  then show "\<exists>c. containers s' = containers s @ [(cid, c)] \<and> cont_id c = cid
             \<and> label c ''kubelite.app'' = Some name
             \<and> label c ''kubelite.managed'' = Some ''true''"
    using cid by (auto simp: label_def label_make_labels_app label_make_labels_managed)
  show n: "nextId s' = Suc (nextId s)" using s' by simp
  show "registry_ok s'"
    using ok cs nin cid by (auto simp: registry_ok_def)
  show "fresh_ids docker s'"
    unfolding fresh_ids_def
  proof (intro allI impI conjI)
    fix n nm ls im r'
    assume a: "nextId s' \<le> n" and b: "docker_run docker n nm ls im = Inr r'"
    from a n have lt: "nextId s < n" by simp
    with fresh b have "dr_id r' \<notin> fst ` set (containers s)"
      unfolding fresh_ids_def by (meson less_imp_le)
    moreover from later [OF lt b] have "dr_id r' \<noteq> dr_id r" .
    ultimately show "dr_id r' \<notin> fst ` set (containers s')"
      using cs cid by auto
  next
    fix n nm ls im r' m nm' ls' im' r''
    assume a: "nextId s' \<le> n" and b: "docker_run docker n nm ls im = Inr r'"
      and c: "n < m" and d: "docker_run docker m nm' ls' im' = Inr r''"
    from a n have "nextId s \<le> n" by simp
    with fresh b c d show "dr_id r'' \<noteq> dr_id r'"
      unfolding fresh_ids_def by blast
  qed
qed

lemma getContainersByApp_append:
  "containers s' = containers s @ [(cid, c)] \<Longrightarrow>
   getContainersByApp s' name
   = getContainersByApp s name @ (if label c ''kubelite.app'' = Some name then [c] else [])"
  by (simp add: getContainersByApp_def)

lemma deploy_loop_success:
  assumes "registry_ok s" and "fresh_ids docker s"
    and "deploy_loop docker a n s = (calls, Inr (), s')"
  shows "length (getContainersByApp s' (app_name a))
         = length (getContainersByApp s (app_name a)) + n \<and> registry_ok s' \<and> fresh_ids docker s'"
  using assms
proof (induction n arbitrary: s calls)
  case 0
  then show ?case by simp
next
  case (Suc n)
  obtain r s1 where dep: "deployContainer docker (app_image a) (app_name a) None s = (r, s1)"
    by (cases "deployContainer docker (app_image a) (app_name a) None s")
  show ?case
  proof (cases r)
    case (Inl e)
    with dep Suc.prems(3) show ?thesis by simp
  next
    case (Inr cid)
    obtain calls1 outcome s2 where rec: "deploy_loop docker a n s1 = (calls1, outcome, s2)"
      by (cases "deploy_loop docker a n s1")
    from dep Inr rec Suc.prems(3) have o: "outcome = Inr ()" and e: "s2 = s'"
      by simp_all
    from dep Inr have d: "deployContainer docker (app_image a) (app_name a) None s = (Inr cid, s1)"
      by simp
    from deployContainer_success(1) [OF Suc.prems(1,2) d] obtain c where
      c: "containers s1 = containers s @ [(cid, c)]" "label c ''kubelite.app'' = Some (app_name a)"
      by blast
    have ok1: "registry_ok s1" and f1: "fresh_ids docker s1"
      using deployContainer_success(3,4) [OF Suc.prems(1,2) d] by simp_all
    from c have len: "length (getContainersByApp s1 (app_name a))
                      = length (getContainersByApp s (app_name a)) + 1"
      by (simp add: getContainersByApp_append)
    from Suc.IH [OF ok1 f1] rec o e len show ?thesis by simp
  qed
qed

lemma delete_as_filter: "AList.delete k al = filter (\<lambda>p. fst p \<noteq> k) al"
  by (induction al) auto

lemma stopContainer_success:
  assumes "stopContainer docker cid s = (Inr u, s')"
  shows "s' = s\<lparr>containers := filter (\<lambda>p. fst p \<noteq> cid) (containers s)\<rparr>"
proof -
  have "AList.delete cid (containers s) = filter (\<lambda>p. fst p \<noteq> cid) (containers s)"
    by (rule delete_as_filter)
  with assms show ?thesis
    by (auto simp: stopContainer_def split: option.splits)
qed

lemma stop_loop_success:
  assumes "stop_loop docker cs s = (calls, Inr (), s')"
  shows "s' = s\<lparr>containers := filter (\<lambda>p. fst p \<notin> cont_id ` set cs) (containers s)\<rparr>"
  using assms
proof (induction cs arbitrary: s calls)
  case Nil
  then show ?case by simp
next
  case (Cons c cs)
  obtain r s1 where st: "stopContainer docker (cont_id c) s = (r, s1)"
    by (cases "stopContainer docker (cont_id c) s")
  show ?case
  proof (cases r)
    case (Inl e)
    with st Cons.prems show ?thesis by simp
  next
    case (Inr u)
    obtain calls1 outcome s2 where rec: "stop_loop docker cs s1 = (calls1, outcome, s2)"
      by (cases "stop_loop docker cs s1")
    from st Inr rec Cons.prems have o: "outcome = Inr ()" and e: "s2 = s'"
      by simp_all
    from st Inr have s1: "s1 = s\<lparr>containers := filter (\<lambda>p. fst p \<noteq> cont_id c) (containers s)\<rparr>"
      using stopContainer_success by simp
    from Cons.IH rec o e
    have "s' = s1\<lparr>containers := filter (\<lambda>p. fst p \<notin> cont_id ` set cs) (containers s1)\<rparr>"
      by simp
    with s1 show ?thesis
      by (auto intro: filter_cong)
  qed
qed

lemma getContainersByApp_after_stops:
  assumes "registry_ok s"
    and "s' = s\<lparr>containers := filter (\<lambda>p. fst p \<notin> ids) (containers s)\<rparr>"
  shows "getContainersByApp s' name
         = filter (\<lambda>c. cont_id c \<notin> ids) (getContainersByApp s name)"
proof -
  from assms(1) have "\<forall>p \<in> set (containers s). cont_id (snd p) = fst p"
    by (auto simp: registry_ok_def)
  then have "filter (\<lambda>p. fst p \<notin> ids) (containers s)
             = filter (\<lambda>p. cont_id (snd p) \<notin> ids) (containers s)"
    by (intro filter_cong refl) simp
  then have "map snd (filter (\<lambda>p. fst p \<notin> ids) (containers s))
             = filter (\<lambda>c. cont_id c \<notin> ids) (map snd (containers s))"
    by (simp add: filter_map comp_def)
  with assms(2) show ?thesis
    by (simp add: getContainersByApp_def conj_commute)
qed

lemma distinct_ids_getContainersByApp:
  assumes "registry_ok s"
  shows "distinct (map cont_id (getContainersByApp s name))"
proof -
  from assms have eq: "\<forall>p \<in> set (containers s). cont_id (snd p) = fst p"
    by (auto simp: registry_ok_def)
  have "map cont_id (getContainersByApp s name)
        = map fst (filter (\<lambda>p. label (snd p) ''kubelite.app'' = Some name) (containers s))"
    using eq by (simp add: getContainersByApp_def filter_map comp_def)
  moreover from assms have "distinct (map fst (containers s))"
    by (simp add: registry_ok_def)
  ultimately show ?thesis
    by (simp add: distinct_map_filter)
qed

lemma length_filter_removed:
  assumes "distinct (map f xs)" and "set ys \<subseteq> set xs" and "distinct ys"
  shows "length (filter (\<lambda>x. f x \<notin> f ` set ys) xs) = length xs - length ys"
proof -
  from assms(1) have inj: "inj_on f (set xs)" and dx: "distinct xs"
    by (simp_all add: distinct_map)
  have "filter (\<lambda>x. f x \<notin> f ` set ys) xs = filter (\<lambda>x. x \<notin> set ys) xs"
  proof (rule filter_cong [OF refl])
    fix x assume "x \<in> set xs"
    with inj assms(2) show "(f x \<notin> f ` set ys) = (x \<notin> set ys)"
      by (auto dest: inj_onD)
  qed
  moreover have "length (filter (\<lambda>x. x \<notin> set ys) xs) = card (set xs - set ys)"
  proof -
    have "set (filter (\<lambda>x. x \<notin> set ys) xs) = set xs - set ys" by auto
    moreover have "distinct (filter (\<lambda>x. x \<notin> set ys) xs)" using dx by simp
    ultimately show ?thesis by (metis distinct_card)
  qed
  moreover have "card (set xs - set ys) = card (set xs) - card (set ys)"
    using assms(2) by (simp add: card_Diff_subset)
  ultimately show ?thesis
    using dx assms(3) by (simp add: distinct_card)
qed

text \<open>
  Claim C2. Let the manifest parse to a desired application, let the registry be well
  formed and let docker give fresh ids. If a reconcile cycle completes without a failing
  call, then the next cycle on the resulting client, with the same manifest, makes no
  call to the runtime, succeeds, and leaves the client as it is.
\<close>

theorem reconcile_idempotent:
  assumes parse: "parseFromFile readFileSync load manifestPath = Inr d"
    and ok: "registry_ok s" and fresh: "fresh_ids docker s"
    and first: "reconcile readFileSync load docker manifestPath s = (calls, Inr (), s')"
  shows "reconcile readFileSync load docker manifestPath s' = ([], Inr (), s')"
proof -
  let ?cur = "getContainersByApp s (app_name d)"
  let ?cur' = "getContainersByApp s' (app_name d)"
  from parse first have r1: "reconcileApp docker d ?cur s = (calls, Inr (), s')"
    by (simp add: reconcile_def)
  have r2: "reconcile readFileSync load docker manifestPath s' = reconcileApp docker d ?cur' s'"
    using parse by (simp add: reconcile_def)
  consider (up) "int (length ?cur) < app_replicas d"
    | (down) "int (length ?cur) > app_replicas d"
    | (same) "int (length ?cur) = app_replicas d"
    by linarith
  then have "reconcileApp docker d ?cur' s' = ([], Inr (), s')"
  proof cases
    case up
    with r1 have "deploy_loop docker d (nat (app_replicas d - int (length ?cur))) s
                  = (calls, Inr (), s')"
      by (simp add: reconcileApp_def Let_def)
    from deploy_loop_success [OF ok fresh this] up
    have "int (length ?cur') = app_replicas d" by simp
    then show ?thesis by (simp add: reconcileApp_def Let_def)
  next
    case down
    define k where "k = nat (int (length ?cur) - app_replicas d)"
    define sel where "sel = take k (sort_key cont_createdAt ?cur)"
    from down r1 have "stop_loop docker sel s = (calls, Inr (), s')"
      by (simp add: reconcileApp_def Let_def k_def sel_def)
    then have "s' = s\<lparr>containers := filter (\<lambda>p. fst p \<notin> cont_id ` set sel) (containers s)\<rparr>"
      by (rule stop_loop_success)
    with ok have cur': "?cur' = filter (\<lambda>c. cont_id c \<notin> cont_id ` set sel) ?cur"
      by (rule getContainersByApp_after_stops)
    have dm: "distinct (map cont_id ?cur)"
      using ok by (rule distinct_ids_getContainersByApp)
    then have "distinct ?cur" by (simp add: distinct_map)
    then have ds: "distinct sel" by (simp add: sel_def)
    have sub: "set sel \<subseteq> set ?cur"
      unfolding sel_def by (metis set_sort set_take_subset)
    have "length ?cur' = length ?cur - length sel"
      unfolding cur' using dm sub ds by (rule length_filter_removed)
    moreover have "length sel = min k (length ?cur)"
      by (simp add: sel_def min.commute)
    ultimately have len: "length ?cur' = length ?cur - min k (length ?cur)" by simp
    show ?thesis
    proof (cases "0 \<le> app_replicas d")
      case True
      with down len have "int (length ?cur') = app_replicas d"
        by (simp add: k_def)
      then show ?thesis by (simp add: reconcileApp_def Let_def)
    next
      case False
      with len have "?cur' = []" by (simp add: k_def)
      with False show ?thesis by (simp add: reconcileApp_def Let_def)
    qed
  next
    case same
    with r1 have "s' = s" by (simp add: reconcileApp_def Let_def)
    with same show ?thesis by (simp add: reconcileApp_def Let_def)
  qed
  with r2 show ?thesis by simp
qed

lemma fresh_ids_healthy: "fresh_ids healthy_docker new_client"
  by (auto simp: fresh_ids_def healthy_docker_def healthy_run_def new_client_def)

theorem reconcile_idempotent_witness:
  "fst (snd (reconcile manifest_on_disk lossless_load healthy_docker ''web.yaml'' new_client))
     = Inr ()
   \<and> fst (reconcile manifest_on_disk lossless_load healthy_docker ''web.yaml'' new_client)
     = [DeployCall ''nginx:latest'' ''web'', DeployCall ''nginx:latest'' ''web'']
   \<and> reconcile manifest_on_disk lossless_load healthy_docker ''web.yaml''
        (snd (snd (reconcile manifest_on_disk lossless_load healthy_docker ''web.yaml'' new_client)))
     = ([], Inr (),
        snd (snd (reconcile manifest_on_disk lossless_load healthy_docker ''web.yaml'' new_client)))"
proof -
  let ?r = "reconcile manifest_on_disk lossless_load healthy_docker ''web.yaml'' new_client"
  have p: "parseFromFile manifest_on_disk lossless_load ''web.yaml'' = Inr web_app"
    by (simp add: parseFromFile_def manifest_on_disk_def parseFromString_def lossless_load_def
        manifestToApp_def appToManifest_def manifest_name_def manifest_image_def web_app_def)
  have ok: "registry_ok new_client"
    by (simp add: registry_ok_def new_client_def)
  have c: "fst ?r = [DeployCall ''nginx:latest'' ''web'', DeployCall ''nginx:latest'' ''web'']"
    and o: "fst (snd ?r) = Inr ()"
    by (simp_all add: reconcile_def p reconcileApp_def getContainersByApp_def new_client_def
        web_app_def eval_nat_numeral deployContainer_def healthy_docker_def healthy_run_def
        Let_def)
  have first: "?r = (fst ?r, Inr (), snd (snd ?r))"
    using o by (metis prod.collapse)
  from reconcile_idempotent [OF p ok fresh_ids_healthy first] c o show ?thesis
    by simp
qed

subsection \<open>Labels\<close>




























end
